theory Spec2Isabelle
  imports Complex_Main "HOL-Library.Word" "HOL-Library.Log_Nat" "HOL-Library.List_Lexorder"
    "HOL-Library.Product_Lexorder"
begin

unbundle bit_operations_syntax

section \<open>Machine model\<close>

text \<open>
  The MO catalog engine (\<^verbatim>\<open>mo_parser.c\<close>) is embedded for an LP64 little-endian host:
  \<^verbatim>\<open>uint32_t\<close> is \<open>32 word\<close>, \<^verbatim>\<open>size_t\<close> values are natural numbers (every
  \<^verbatim>\<open>size_t\<close> expression of the code stays below \<open>2 ^ 36\<close>), a \<^verbatim>\<open>char\<close> pointer is
  an address (a natural number, \<open>0\<close> is \<^verbatim>\<open>NULL\<close>) and the caller's memory is a function
  from addresses to bytes. A catalog owns a copy of the file: the memory the code reads is
  the caller's memory with the owned buffer laid over it at the buffer's address.
\<close>

type_synonym byte = "8 word"
type_synonym u32 = "32 word"
type_synonym addr = nat
type_synonym memory = "addr \<Rightarrow> byte"

definition store_bytes :: "memory \<Rightarrow> addr \<Rightarrow> byte list \<Rightarrow> memory" where
  "store_bytes mem p bs = (\<lambda>a. if p \<le> a \<and> a < p + length bs then bs ! (a - p) else mem a)"

definition bytes_at :: "memory \<Rightarrow> addr \<Rightarrow> nat \<Rightarrow> byte list" where
  "bytes_at mem p n = map (\<lambda>k. mem (p + k)) [0..<n]"

text \<open>\<^verbatim>\<open>memcmp\<close>: the sign of the first differing pair of bytes, compared as unsigned.\<close>

fun memcmp_bytes :: "byte list \<Rightarrow> byte list \<Rightarrow> int" where
  "memcmp_bytes (x # xs) (y # ys) =
     (if x = y then memcmp_bytes xs ys else if x < y then - 1 else 1)"
| "memcmp_bytes _ _ = 0"

definition memcmp :: "memory \<Rightarrow> addr \<Rightarrow> addr \<Rightarrow> nat \<Rightarrow> int" where
  "memcmp mem p q n = memcmp_bytes (bytes_at mem p n) (bytes_at mem q n)"

text \<open>\<^verbatim>\<open>strlen\<close> walks to the first NUL byte; it has no value when there is none.\<close>

partial_function (option) strlen_from :: "memory \<Rightarrow> addr \<Rightarrow> nat \<Rightarrow> nat option" where
  "strlen_from mem p n = (if mem (p + n) = 0 then Some n else strlen_from mem p (Suc n))"

declare strlen_from.simps [code]

definition strlen :: "memory \<Rightarrow> addr \<Rightarrow> nat option" where
  "strlen mem p = strlen_from mem p 0"

text \<open>Host-order (little-endian) 32-bit loads and stores in a byte buffer.\<close>

definition load32 :: "byte list \<Rightarrow> nat \<Rightarrow> u32" where
  "load32 bs off =
     ucast (bs ! off) OR push_bit 8 (ucast (bs ! (off + 1))) OR
     push_bit 16 (ucast (bs ! (off + 2))) OR push_bit 24 (ucast (bs ! (off + 3)))"

definition store32 :: "byte list \<Rightarrow> nat \<Rightarrow> u32 \<Rightarrow> byte list" where
  "store32 bs off w =
     bs[off := ucast w, off + 1 := ucast (drop_bit 8 w),
        off + 2 := ucast (drop_bit 16 w), off + 3 := ucast (drop_bit 24 w)]"

section \<open>Data model\<close>

datatype mo_error_t =
  MO_SUCCESS | MO_ERROR_FILE_NOT_FOUND | MO_ERROR_INVALID_FORMAT | MO_ERROR_MEMORY
| MO_ERROR_INVALID_CONTEXT | MO_ERROR_IO | MO_ERROR_NOT_INITIALIZED

text \<open>The search strategy is chosen by a preprocessor macro; here it is a parameter.\<close>

datatype search_method =
  MO_SEARCH_METHOD_LINEAR | MO_SEARCH_METHOD_BINARY | MO_SEARCH_METHOD_HASH

record mo_string_pair_t =
  pair_original :: addr
  pair_translation :: addr
  pair_original_len :: nat
  pair_translation_len :: nat

record mo_cache_item_t =
  cache_original :: addr
  cache_translation :: addr
  cache_hash :: u32

datatype mo_hash_slot_state_t =
  MO_HASH_SLOT_EMPTY | MO_HASH_SLOT_OCCUPIED | MO_HASH_SLOT_DELETED

record mo_hash_slot_t =
  slot_original :: addr
  slot_translation :: addr
  slot_original_len :: u32
  slot_translation_len :: u32
  slot_hash :: u32
  slot_state :: mo_hash_slot_state_t

record mo_stats_t =
  total_lookups :: u32
  cache_hits :: u32
  cache_misses :: u32
  hash_collisions :: u32
  comparisons :: u32

text \<open>
  \<^verbatim>\<open>struct mo_context\<close>. The owned buffer is its address \<open>data_ptr\<close> and its contents
  \<open>data\<close> (\<^verbatim>\<open>size\<close> is the length); an array is a list (\<^verbatim>\<open>num_strings\<close> and
  \<^verbatim>\<open>hash_table_size\<close> are the lengths), \<open>None\<close> when the pointer is \<^verbatim>\<open>NULL\<close>. The
  statistics are those of a build with \<^verbatim>\<open>MO_ENABLE_STATS\<close>.
\<close>

record mo_context =
  data :: "byte list"
  data_ptr :: addr
  pairs :: "mo_string_pair_t list option"
  hash_table :: "mo_hash_slot_t list option"
  hash_table_mask :: u32
  hash_table_count :: u32
  cache :: "mo_cache_item_t list"
  stats :: mo_stats_t

text \<open>What the allocator answers to the four allocations of a load.\<close>

record mo_alloc =
  alloc_context :: bool
  alloc_data :: addr
  alloc_pairs :: bool
  alloc_table :: bool

definition MO_MAGIC :: u32 where
  "MO_MAGIC = 0x950412de"

definition MO_MAGIC_REV :: u32 where
  "MO_MAGIC_REV = 0xde120495"

definition MO_MAX_STRING_LENGTH :: nat where
  "MO_MAX_STRING_LENGTH = 4096"

definition MO_CACHE_SIZE :: nat where
  "MO_CACHE_SIZE = 64"

definition NOT_FOUND :: u32 where
  "NOT_FOUND = 0xFFFFFFFF"

definition view :: "mo_context \<Rightarrow> memory \<Rightarrow> memory" where
  "view ctx mem = store_bytes mem (data_ptr ctx) (data ctx)"

section \<open>Byte order\<close>

definition mo_swap_uint32 :: "u32 \<Rightarrow> bool \<Rightarrow> u32" where
  "mo_swap_uint32 val swap =
     (if \<not> swap then val
      else (drop_bit 24 val AND 0x000000FF) OR (drop_bit 8 val AND 0x0000FF00) OR
           (push_bit 8 val AND 0x00FF0000) OR (push_bit 24 val AND 0xFF000000))"

section \<open>Search strategies\<close>

subsection \<open>Linear\<close>

text \<open>
  The \<^verbatim>\<open>for\<close> loop of \<^verbatim>\<open>mo_find_string_linear\<close> from index \<open>i\<close> on, over the pairs
  not yet examined; the second component is the \<^verbatim>\<open>comparisons\<close> counter.
\<close>

fun linear_loop ::
  "memory \<Rightarrow> mo_string_pair_t list \<Rightarrow> addr \<Rightarrow> nat \<Rightarrow> nat \<Rightarrow> u32 \<Rightarrow> u32 \<times> u32" where
  "linear_loop M [] str len i c = (NOT_FOUND, c)"
| "linear_loop M (pair # rest) str len i c =
     (if pair_original_len pair \<noteq> len then linear_loop M rest str len (Suc i) (c + 1)
      else if memcmp M (pair_original pair) str len = 0 then (word_of_nat i, c + 1)
      else linear_loop M rest str len (Suc i) (c + 1))"

definition mo_find_string_linear ::
  "memory \<Rightarrow> mo_context \<Rightarrow> addr \<Rightarrow> nat \<Rightarrow> u32 \<times> u32" where
  "mo_find_string_linear M ctx str len =
     (case pairs ctx of
        None \<Rightarrow> (NOT_FOUND, comparisons (stats ctx))
      | Some ps \<Rightarrow>
          if ps = [] then (NOT_FOUND, comparisons (stats ctx))
          else linear_loop M ps str len 0 (comparisons (stats ctx)))"

subsection \<open>Binary\<close>

definition mo_compare_pairs :: "memory \<Rightarrow> mo_string_pair_t \<Rightarrow> mo_string_pair_t \<Rightarrow> int" where
  "mo_compare_pairs M pair1 pair2 =
     (if pair_original_len pair1 < pair_original_len pair2 then - 1
      else if pair_original_len pair1 > pair_original_len pair2 then 1
      else memcmp M (pair_original pair1) (pair_original pair2) (pair_original_len pair1))"

text \<open>
  \<^verbatim>\<open>qsort\<close> is the C library's: any result of it is a permutation of the array in which
  the comparator never finds a later element below an earlier one. It is modelled by
  insertion sort with the comparator of the code.
\<close>

fun qsort_insert ::
  "memory \<Rightarrow> mo_string_pair_t \<Rightarrow> mo_string_pair_t list \<Rightarrow> mo_string_pair_t list" where
  "qsort_insert M p [] = [p]"
| "qsort_insert M p (q # qs) =
     (if mo_compare_pairs M p q \<le> 0 then p # q # qs else q # qsort_insert M p qs)"

fun qsort_pairs :: "memory \<Rightarrow> mo_string_pair_t list \<Rightarrow> mo_string_pair_t list" where
  "qsort_pairs M [] = []"
| "qsort_pairs M (p # ps) = qsort_insert M p (qsort_pairs M ps)"

text \<open>
  The \<^verbatim>\<open>while (left <= right)\<close> loop of \<^verbatim>\<open>mo_find_string_binary\<close>. The indices are
  \<^verbatim>\<open>uint32_t\<close> in the code; they stay below \<^verbatim>\<open>num_strings\<close>, so that no operation on
  them wraps, and are natural numbers here.
\<close>

function binary_loop ::
  "memory \<Rightarrow> mo_string_pair_t list \<Rightarrow> addr \<Rightarrow> nat \<Rightarrow> nat \<Rightarrow> nat \<Rightarrow> u32 \<Rightarrow> u32 \<times> u32" where
  "binary_loop M ps str len left right c =
     (if left \<le> right then
        (if pair_original_len (ps ! (left + (right - left) div 2)) < len
         then binary_loop M ps str len (left + (right - left) div 2 + 1) right (c + 1)
         else if pair_original_len (ps ! (left + (right - left) div 2)) > len
         then (if left + (right - left) div 2 = 0 then (NOT_FOUND, c + 1)
               else binary_loop M ps str len left (left + (right - left) div 2 - 1) (c + 1))
         else if memcmp M (pair_original (ps ! (left + (right - left) div 2))) str len = 0
         then (word_of_nat (left + (right - left) div 2), c + 1)
         else if memcmp M (pair_original (ps ! (left + (right - left) div 2))) str len < 0
         then binary_loop M ps str len (left + (right - left) div 2 + 1) right (c + 1)
         else (if left + (right - left) div 2 = 0 then (NOT_FOUND, c + 1)
               else binary_loop M ps str len left (left + (right - left) div 2 - 1) (c + 1)))
      else (NOT_FOUND, c))"
  by pat_completeness auto
termination
  by (relation "measure (\<lambda>(M, ps, str, len, left, right, c). Suc right - left)") auto

declare binary_loop.simps [simp del]

definition mo_find_string_binary ::
  "memory \<Rightarrow> mo_context \<Rightarrow> addr \<Rightarrow> nat \<Rightarrow> u32 \<times> u32" where
  "mo_find_string_binary M ctx str len =
     (case pairs ctx of
        None \<Rightarrow> (NOT_FOUND, comparisons (stats ctx))
      | Some ps \<Rightarrow>
          if ps = [] then (NOT_FOUND, comparisons (stats ctx))
          else binary_loop M ps str len 0 (length ps - 1) (comparisons (stats ctx)))"

subsection \<open>Hash\<close>

text \<open>djb2 over the \<open>len\<close> bytes at \<open>str\<close>, in wrapping 32-bit arithmetic.\<close>

definition mo_hash_string :: "memory \<Rightarrow> addr \<Rightarrow> nat \<Rightarrow> u32" where
  "mo_hash_string M str len =
     fold (\<lambda>b hash. (push_bit 5 hash + hash) + ucast b) (bytes_at M str len) 5381"

definition mo_next_power_of_two :: "u32 \<Rightarrow> u32" where
  "mo_next_power_of_two n0 =
     (let n = n0 - 1;
          n = n OR drop_bit 1 n;
          n = n OR drop_bit 2 n;
          n = n OR drop_bit 4 n;
          n = n OR drop_bit 8 n;
          n = n OR drop_bit 16 n
      in n + 1)"

text \<open>
  IEEE 754 binary32 arithmetic, as far as \<^verbatim>\<open>mo_build_hash_table\<close> uses it: rounding to
  nearest (ties to even) of a rational \<open>x \<ge> 1\<close> to a 24-bit significand; the values stay
  far inside the exponent range.
\<close>

definition round_ties_even :: "rat \<Rightarrow> int" where
  "round_ties_even y =
     (if y - of_int \<lfloor>y\<rfloor> < 1 / 2 then \<lfloor>y\<rfloor>
      else if y - of_int \<lfloor>y\<rfloor> > 1 / 2 then \<lfloor>y\<rfloor> + 1
      else if even \<lfloor>y\<rfloor> then \<lfloor>y\<rfloor> else \<lfloor>y\<rfloor> + 1)"

definition float32_ulp :: "rat \<Rightarrow> rat" where
  "float32_ulp x = 2 powi (int (floorlog 2 (nat \<lfloor>x\<rfloor>)) - 24)"

definition float32_round :: "rat \<Rightarrow> rat" where
  "float32_round x = of_int (round_ties_even (x / float32_ulp x)) * float32_ulp x"

text \<open>
  \<^verbatim>\<open>(uint32_t)(num_strings / MO_HASH_TABLE_LOAD_FACTOR)\<close> for \<^verbatim>\<open>num_strings\<close> \<open>\<ge> 1\<close>: the count
  converted to \<^verbatim>\<open>float\<close>, divided by \<^verbatim>\<open>0.75f\<close>, truncated. The conversion of a value
  that does not fit 32 bits is undefined: no value.
\<close>

definition float32_quotient :: "nat \<Rightarrow> rat" where
  "float32_quotient n = float32_round (float32_round (of_nat n) / (3 / 4))"

definition uint32_of_load_quotient :: "nat \<Rightarrow> u32 option" where
  "uint32_of_load_quotient n =
     (if float32_quotient n < 2 ^ 32 then Some (word_of_int \<lfloor>float32_quotient n\<rfloor>) else None)"

text \<open>
  The insertion probe \<^verbatim>\<open>while (hash_table[index].state == OCCUPIED)\<close>. It has no value
  when it never leaves the loop, or reads outside the table.
\<close>

partial_function (option) hash_insert_probe ::
  "mo_hash_slot_t list \<Rightarrow> u32 \<Rightarrow> u32 \<Rightarrow> u32 option" where
  "hash_insert_probe tbl msk index =
     (if unat index < length tbl then
        (if slot_state (tbl ! unat index) = MO_HASH_SLOT_OCCUPIED
         then hash_insert_probe tbl msk ((index + 1) AND msk)
         else Some index)
      else None)"

declare hash_insert_probe.simps [code]

definition empty_slot :: mo_hash_slot_t where
  "empty_slot =
     \<lparr>slot_original = 0, slot_translation = 0, slot_original_len = 0,
      slot_translation_len = 0, slot_hash = 0, slot_state = MO_HASH_SLOT_EMPTY\<rparr>"

definition slot_of_pair :: "mo_string_pair_t \<Rightarrow> u32 \<Rightarrow> mo_hash_slot_t" where
  "slot_of_pair pair hash =
     \<lparr>slot_original = pair_original pair, slot_translation = pair_translation pair,
      slot_original_len = word_of_nat (pair_original_len pair),
      slot_translation_len = word_of_nat (pair_translation_len pair),
      slot_hash = hash, slot_state = MO_HASH_SLOT_OCCUPIED\<rparr>"

text \<open>The insertion loop over the pairs; the result is the table and \<^verbatim>\<open>hash_table_count\<close>.\<close>

fun hash_insert_all ::
  "memory \<Rightarrow> mo_string_pair_t list \<Rightarrow> u32 \<Rightarrow> mo_hash_slot_t list \<Rightarrow> u32 \<Rightarrow>
   (mo_hash_slot_t list \<times> u32) option" where
  "hash_insert_all M [] msk tbl cnt = Some (tbl, cnt)"
| "hash_insert_all M (pair # rest) msk tbl cnt =
     (case hash_insert_probe tbl msk
             (mo_hash_string M (pair_original pair) (pair_original_len pair) AND msk) of
        None \<Rightarrow> None
      | Some index \<Rightarrow>
          hash_insert_all M rest msk
            (tbl[unat index :=
               slot_of_pair pair (mo_hash_string M (pair_original pair) (pair_original_len pair))])
            (cnt + 1))"

text \<open>
  \<^verbatim>\<open>mo_build_hash_table\<close>: \<open>Some (False, _)\<close> and \<open>Some (True, _)\<close> are its two return
  values, \<open>None\<close> stands for a build that has no defined result.
\<close>

definition mo_build_hash_table ::
  "bool \<Rightarrow> memory \<Rightarrow> mo_context \<Rightarrow> (bool \<times> mo_context) option" where
  "mo_build_hash_table table_allocated M ctx =
     (case pairs ctx of
        None \<Rightarrow> Some (False, ctx)
      | Some ps \<Rightarrow>
          if ps = [] then Some (False, ctx)
          else
            (case uint32_of_load_quotient (length ps) of
               None \<Rightarrow> None
             | Some q \<Rightarrow>
                 (let target_size = q + 1;
                      table_size = mo_next_power_of_two target_size;
                      ctx1 = ctx\<lparr>hash_table_mask := table_size - 1, hash_table_count := 0\<rparr>
                  in if \<not> table_allocated then Some (False, ctx1)
                     else
                       (case hash_insert_all M ps (table_size - 1)
                               (replicate (unat table_size) empty_slot) 0 of
                          None \<Rightarrow> None
                        | Some (tbl, cnt) \<Rightarrow>
                            Some (True, ctx1\<lparr>hash_table := Some tbl,
                                             hash_table_count := cnt\<rparr>)))))"

text \<open>
  The probe loop of \<^verbatim>\<open>mo_find_string_hash\<close>; the second component is the
  \<^verbatim>\<open>hash_collisions\<close> counter.
\<close>

partial_function (option) hash_find_probe ::
  "memory \<Rightarrow> mo_hash_slot_t list \<Rightarrow> u32 \<Rightarrow> u32 \<Rightarrow> addr \<Rightarrow> nat \<Rightarrow> u32 \<Rightarrow> u32 \<Rightarrow> u32 \<Rightarrow> u32 \<Rightarrow>
   (u32 \<times> u32) option" where
  "hash_find_probe M tbl msk cnt str len hash start_index index coll =
     (if unat index < length tbl then
        (if slot_state (tbl ! unat index) = MO_HASH_SLOT_EMPTY then Some (NOT_FOUND, coll)
         else if slot_state (tbl ! unat index) = MO_HASH_SLOT_OCCUPIED \<and>
                 slot_hash (tbl ! unat index) = hash \<and>
                 unat (slot_original_len (tbl ! unat index)) = len \<and>
                 memcmp M (slot_original (tbl ! unat index)) str len = 0
         then Some (index, coll)
         else if (index + 1) AND msk = start_index
         then Some (NOT_FOUND,
                if slot_state (tbl ! unat index) = MO_HASH_SLOT_OCCUPIED \<and>
                   unat cnt < length tbl then coll + 1 else coll)
         else hash_find_probe M tbl msk cnt str len hash start_index ((index + 1) AND msk)
                (if slot_state (tbl ! unat index) = MO_HASH_SLOT_OCCUPIED \<and>
                    unat cnt < length tbl then coll + 1 else coll))
      else None)"

declare hash_find_probe.simps [code]

definition mo_find_string_hash ::
  "memory \<Rightarrow> mo_context \<Rightarrow> addr \<Rightarrow> nat \<Rightarrow> u32 \<Rightarrow> (u32 \<times> u32) option" where
  "mo_find_string_hash M ctx str len hash =
     (case hash_table ctx of
        None \<Rightarrow> Some (NOT_FOUND, hash_collisions (stats ctx))
      | Some tbl \<Rightarrow>
          if tbl = [] \<or> str = 0 then Some (NOT_FOUND, hash_collisions (stats ctx))
          else hash_find_probe M tbl (hash_table_mask ctx) (hash_table_count ctx) str len hash
                 (hash AND hash_table_mask ctx) (hash AND hash_table_mask ctx)
                 (hash_collisions (stats ctx)))"

definition mo_find_string ::
  "search_method \<Rightarrow> memory \<Rightarrow> mo_context \<Rightarrow> addr \<Rightarrow> nat \<Rightarrow> u32 \<Rightarrow> (u32 \<times> mo_context) option" where
  "mo_find_string m M ctx str len hash =
     (case m of
        MO_SEARCH_METHOD_LINEAR \<Rightarrow>
          Some (fst (mo_find_string_linear M ctx str len),
                ctx\<lparr>stats := (stats ctx)\<lparr>comparisons := snd (mo_find_string_linear M ctx str len)\<rparr>\<rparr>)
      | MO_SEARCH_METHOD_BINARY \<Rightarrow>
          Some (fst (mo_find_string_binary M ctx str len),
                ctx\<lparr>stats := (stats ctx)\<lparr>comparisons := snd (mo_find_string_binary M ctx str len)\<rparr>\<rparr>)
      | MO_SEARCH_METHOD_HASH \<Rightarrow>
          (case mo_find_string_hash M ctx str len hash of
             None \<Rightarrow> None
           | Some (index, coll) \<Rightarrow>
               Some (index, ctx\<lparr>stats := (stats ctx)\<lparr>hash_collisions := coll\<rparr>\<rparr>)))"

section \<open>Loading a catalog\<close>

text \<open>The six header fields after the magic, converted in place in the owned buffer.\<close>

definition swap_header :: "byte list \<Rightarrow> bool \<Rightarrow> byte list" where
  "swap_header buf0 need_swap =
     (let buf = store32 buf0 4 (mo_swap_uint32 (load32 buf0 4) need_swap);
          buf = store32 buf 8 (mo_swap_uint32 (load32 buf 8) need_swap);
          buf = store32 buf 12 (mo_swap_uint32 (load32 buf 12) need_swap);
          buf = store32 buf 16 (mo_swap_uint32 (load32 buf 16) need_swap);
          buf = store32 buf 20 (mo_swap_uint32 (load32 buf 20) need_swap);
          buf = store32 buf 24 (mo_swap_uint32 (load32 buf 24) need_swap)
      in buf)"

text \<open>
  The loop that resolves the descriptors of the indices \<open>is\<close>, in order; \<open>None\<close> when
  a check fails (\<^verbatim>\<open>MO_ERROR_INVALID_FORMAT\<close>). The sums of the check are \<^verbatim>\<open>uint32_t\<close>
  sums, compared with the \<^verbatim>\<open>size_t\<close> size.
\<close>

fun init_pairs ::
  "byte list \<Rightarrow> addr \<Rightarrow> bool \<Rightarrow> nat \<Rightarrow> nat \<Rightarrow> nat list \<Rightarrow> mo_string_pair_t list option" where
  "init_pairs buf base need_swap orig_table trans_table [] = Some []"
| "init_pairs buf base need_swap orig_table trans_table (i # is) =
     (let orig_len = mo_swap_uint32 (load32 buf (orig_table + 8 * i)) need_swap;
          orig_offset = mo_swap_uint32 (load32 buf (orig_table + 8 * i + 4)) need_swap;
          trans_len = mo_swap_uint32 (load32 buf (trans_table + 8 * i)) need_swap;
          trans_offset = mo_swap_uint32 (load32 buf (trans_table + 8 * i + 4)) need_swap
      in if unat (orig_offset + orig_len + 1) > length buf \<or>
            unat (trans_offset + trans_len + 1) > length buf
         then None
         else
           (case init_pairs buf base need_swap orig_table trans_table is of
              None \<Rightarrow> None
            | Some ps \<Rightarrow>
                Some (\<lparr>pair_original = base + unat orig_offset,
                       pair_translation = base + unat trans_offset,
                       pair_original_len = unat orig_len,
                       pair_translation_len = unat trans_len\<rparr> # ps)))"

definition empty_cache :: "mo_cache_item_t list" where
  "empty_cache =
     replicate MO_CACHE_SIZE \<lparr>cache_original = 0, cache_translation = 0, cache_hash = 0\<rparr>"

definition zero_stats :: mo_stats_t where
  "zero_stats =
     \<lparr>total_lookups = 0, cache_hits = 0, cache_misses = 0, hash_collisions = 0,
      comparisons = 0\<rparr>"

text \<open>
  \<^verbatim>\<open>mo_context_create_from_memory\<close>. \<open>input\<close> is the \<^verbatim>\<open>size\<close> bytes at \<^verbatim>\<open>data\<close>
  (\<open>None\<close> for a \<^verbatim>\<open>NULL\<close> pointer), \<open>context_out\<close> says that the out-pointer is not
  \<^verbatim>\<open>NULL\<close>, \<open>mem\<close> is the memory outside the owned buffer. \<open>Some (Inl e)\<close> is the
  return of the error \<open>e\<close>, \<open>Some (Inr ctx)\<close> the return of \<^verbatim>\<open>MO_SUCCESS\<close> with the
  context stored through the out-pointer, \<open>None\<close> a load with no defined result.
\<close>

definition mo_context_create_from_memory ::
  "search_method \<Rightarrow> mo_alloc \<Rightarrow> memory \<Rightarrow> byte list option \<Rightarrow> bool \<Rightarrow>
   (mo_error_t + mo_context) option" where
  "mo_context_create_from_memory m al mem input context_out =
     (case input of
        None \<Rightarrow> Some (Inl MO_ERROR_INVALID_CONTEXT)
      | Some bytes \<Rightarrow>
          if length bytes < 28 \<or> \<not> context_out then Some (Inl MO_ERROR_INVALID_CONTEXT)
          else if \<not> alloc_context al then Some (Inl MO_ERROR_MEMORY)
          else if alloc_data al = 0 then Some (Inl MO_ERROR_MEMORY)
          else if load32 bytes 0 \<noteq> MO_MAGIC \<and> load32 bytes 0 \<noteq> MO_MAGIC_REV
          then Some (Inl MO_ERROR_INVALID_FORMAT)
          else
            (let need_swap = (load32 bytes 0 \<noteq> MO_MAGIC);
                 buf = swap_header bytes need_swap;
                 num_strings = load32 buf 8;
                 orig_table_offset = load32 buf 12;
                 trans_table_offset = load32 buf 16
             in if unat orig_table_offset + unat num_strings * 8 > length buf \<or>
                   unat trans_table_offset + unat num_strings * 8 > length buf
                then Some (Inl MO_ERROR_INVALID_FORMAT)
                else if \<not> alloc_pairs al then Some (Inl MO_ERROR_MEMORY)
                else
                  (case init_pairs buf (alloc_data al) need_swap (unat orig_table_offset)
                          (unat trans_table_offset) [0..<unat num_strings] of
                     None \<Rightarrow> Some (Inl MO_ERROR_INVALID_FORMAT)
                   | Some ps \<Rightarrow>
                       (let ctx = \<lparr>data = buf, data_ptr = alloc_data al, pairs = Some ps,
                                   hash_table = None, hash_table_mask = 0,
                                   hash_table_count = 0, cache = empty_cache,
                                   stats = zero_stats\<rparr>
                        in case m of
                             MO_SEARCH_METHOD_LINEAR \<Rightarrow> Some (Inr ctx)
                           | MO_SEARCH_METHOD_BINARY \<Rightarrow>
                               Some (Inr (ctx\<lparr>pairs := Some (qsort_pairs (view ctx mem) ps)\<rparr>))
                           | MO_SEARCH_METHOD_HASH \<Rightarrow>
                               (case mo_build_hash_table (alloc_table al) (view ctx mem) ctx of
                                  None \<Rightarrow> None
                                | Some (built, ctx') \<Rightarrow>
                                    if built then Some (Inr ctx')
                                    else Some (Inl MO_ERROR_MEMORY))))))"

section \<open>Queries\<close>

text \<open>
  The cache check of \<^verbatim>\<open>mo_translate_n\<close>: the slot is chosen by the hash in hash mode
  and by the pointer otherwise; a hit needs the stored pointer to be the query pointer
  and, in hash mode, the stored hash to be the query's.
\<close>

definition cache_slot_of :: "search_method \<Rightarrow> addr \<Rightarrow> u32 \<Rightarrow> nat" where
  "cache_slot_of m original hash =
     (if m = MO_SEARCH_METHOD_HASH then unat (hash AND 63) else original mod MO_CACHE_SIZE)"

definition cache_hit :: "search_method \<Rightarrow> mo_context \<Rightarrow> addr \<Rightarrow> u32 \<Rightarrow> bool" where
  "cache_hit m ctx original hash =
     (if m = MO_SEARCH_METHOD_HASH
      then cache_original (cache ctx ! cache_slot_of m original hash) = original \<and>
           cache_hash (cache ctx ! cache_slot_of m original hash) = hash
      else cache_original (cache ctx ! cache_slot_of m original hash) = original)"

text \<open>The translation pointer at a found index: of the hash slot, or of the pair.\<close>

definition translation_at :: "search_method \<Rightarrow> mo_context \<Rightarrow> u32 \<Rightarrow> addr" where
  "translation_at m ctx index =
     (if m = MO_SEARCH_METHOD_HASH then slot_translation (the (hash_table ctx) ! unat index)
      else pair_translation (the (pairs ctx) ! unat index))"

definition cache_store ::
  "search_method \<Rightarrow> mo_context \<Rightarrow> nat \<Rightarrow> addr \<Rightarrow> addr \<Rightarrow> u32 \<Rightarrow> mo_cache_item_t list" where
  "cache_store m ctx cache_slot original result hash =
     (cache ctx)[cache_slot :=
        (if m = MO_SEARCH_METHOD_HASH
         then \<lparr>cache_original = original, cache_translation = result, cache_hash = hash\<rparr>
         else (cache ctx ! cache_slot)\<lparr>cache_original := original,
                cache_translation := result\<rparr>)]"

definition count_lookup :: "mo_context \<Rightarrow> mo_context" where
  "count_lookup ctx = ctx\<lparr>stats := (stats ctx)\<lparr>total_lookups := total_lookups (stats ctx) + 1\<rparr>\<rparr>"

definition count_hit :: "mo_context \<Rightarrow> mo_context" where
  "count_hit ctx = ctx\<lparr>stats := (stats ctx)\<lparr>cache_hits := cache_hits (stats ctx) + 1\<rparr>\<rparr>"

definition count_miss :: "mo_context \<Rightarrow> mo_context" where
  "count_miss ctx = ctx\<lparr>stats := (stats ctx)\<lparr>cache_misses := cache_misses (stats ctx) + 1\<rparr>\<rparr>"

text \<open>
  \<^verbatim>\<open>mo_translate_n\<close>. The result is the returned pointer and the context after the call;
  \<open>None\<close> when the hash probe has no value. The hash is the one of hash mode (the other
  modes do not compute it and do not store it).
\<close>

definition mo_translate_n ::
  "search_method \<Rightarrow> mo_context option \<Rightarrow> memory \<Rightarrow> addr \<Rightarrow> nat \<Rightarrow>
   (addr \<times> mo_context option) option" where
  "mo_translate_n m context mem original original_len =
     (case context of
        None \<Rightarrow> Some (original, context)
      | Some ctx \<Rightarrow>
          if pairs ctx = None \<or> original = 0 then Some (original, context)
          else
            (let hash = mo_hash_string (view ctx mem) original original_len;
                 cache_slot = cache_slot_of m original hash
             in if cache_hit m ctx original hash
                then Some (if cache_translation (cache ctx ! cache_slot) \<noteq> 0
                           then cache_translation (cache ctx ! cache_slot) else original,
                           Some (count_hit (count_lookup ctx)))
                else
                  (case mo_find_string m (view ctx mem) (count_miss (count_lookup ctx))
                          original original_len hash of
                     None \<Rightarrow> None
                   | Some (index, ctx2) \<Rightarrow>
                       if index \<noteq> NOT_FOUND then
                         Some (translation_at m ctx2 index,
                               Some (ctx2\<lparr>cache := cache_store m ctx2 cache_slot original
                                                 (translation_at m ctx2 index) hash\<rparr>))
                       else Some (original, Some ctx2))))"

definition memory_of :: "mo_context option \<Rightarrow> memory \<Rightarrow> memory" where
  "memory_of context mem = (case context of None \<Rightarrow> mem | Some ctx \<Rightarrow> view ctx mem)"

definition mo_translate ::
  "search_method \<Rightarrow> mo_context option \<Rightarrow> memory \<Rightarrow> addr \<Rightarrow>
   (addr \<times> mo_context option) option" where
  "mo_translate m context mem original =
     (if original = 0 then mo_translate_n m context mem original 0
      else
        (case strlen (memory_of context mem) original of
           None \<Rightarrow> None
         | Some n \<Rightarrow> mo_translate_n m context mem original n))"


text \<open>
  \<^verbatim>\<open>mo_translate_cp\<close>. \<open>key\<close> is the address of the local buffer of
  \<^verbatim>\<open>MO_MAX_STRING_LENGTH\<close> bytes. \<^verbatim>\<open>snprintf\<close> formats \<^verbatim>\<open>"%s\004%s"\<close> or \<^verbatim>\<open>"%s"\<close>
  from the NUL-terminated strings at its arguments, stores at most
  \<^verbatim>\<open>MO_MAX_STRING_LENGTH - 1\<close> bytes and a NUL, and returns the length of the whole
  formatted string. The result is the returned pointer, the context and the memory after
  the call.
\<close>

definition c_string :: "memory \<Rightarrow> addr \<Rightarrow> byte list option" where
  "c_string M p = map_option (bytes_at M p) (strlen M p)"

definition context_key :: "memory \<Rightarrow> addr \<Rightarrow> addr \<Rightarrow> byte list option" where
  "context_key M context_str str =
     (if context_str \<noteq> 0
      then (case c_string M context_str of
              None \<Rightarrow> None
            | Some c \<Rightarrow> map_option (\<lambda>s. c @ [4] @ s) (c_string M str))
      else c_string M str)"

definition snprintf_key :: "memory \<Rightarrow> addr \<Rightarrow> byte list \<Rightarrow> memory" where
  "snprintf_key mem key s = store_bytes mem key (take (MO_MAX_STRING_LENGTH - 1) s @ [0])"

definition mo_translate_cp ::
  "search_method \<Rightarrow> mo_context option \<Rightarrow> memory \<Rightarrow> addr \<Rightarrow> addr \<Rightarrow> addr \<Rightarrow> addr \<Rightarrow> 64 word \<Rightarrow>
   (addr \<times> mo_context option \<times> memory) option" where
  "mo_translate_cp m context mem key context_str singular plural n =
     (if context = None \<or> singular = 0 then Some (singular, context, mem)
      else
        (case context_key (memory_of context mem) context_str singular of
           None \<Rightarrow> None
         | Some s \<Rightarrow>
             if length s \<ge> MO_MAX_STRING_LENGTH
             then Some (singular, context, snprintf_key mem key s)
             else
               (case mo_translate_n m context (snprintf_key mem key s) key (length s) of
                  None \<Rightarrow> None
                | Some (r1, c1) \<Rightarrow>
                    (case (if r1 = key \<and> context_str \<noteq> 0
                           then mo_translate m c1 (snprintf_key mem key s) singular
                           else Some (r1, c1)) of
                       None \<Rightarrow> None
                     | Some (result, c2) \<Rightarrow>
                         if plural \<noteq> 0 \<and> n \<noteq> 1 then
                           (case (if context_str \<noteq> 0 then
                                    (case context_key (memory_of c2 (snprintf_key mem key s))
                                            context_str plural of
                                       None \<Rightarrow> None
                                     | Some s' \<Rightarrow>
                                         if length s' < MO_MAX_STRING_LENGTH
                                         then
                                           (case mo_translate_n m c2
                                                   (snprintf_key (snprintf_key mem key s) key s')
                                                   key (length s') of
                                              None \<Rightarrow> None
                                            | Some (r3, c3) \<Rightarrow>
                                                Some (r3, c3,
                                                  snprintf_key (snprintf_key mem key s) key s'))
                                         else Some (0, c2,
                                                snprintf_key (snprintf_key mem key s) key s'))
                                  else Some (0, c2, snprintf_key mem key s)) of
                              None \<Rightarrow> None
                            | Some (plural_translation, c3, mem2) \<Rightarrow>
                                if plural_translation = 0 \<or> plural_translation = key
                                then (case mo_translate m c3 mem2 plural of
                                        None \<Rightarrow> None
                                      | Some (r4, c4) \<Rightarrow> Some (r4, c4, mem2))
                                else Some (plural_translation, c3, mem2))
                         else Some (result, c2, snprintf_key mem key s)))))"

section \<open>Notions of the specification\<close>


text \<open>The context pointer a caller holds after a load: \<^verbatim>\<open>NULL\<close> unless the load succeeded.\<close>

definition loaded :: "(mo_error_t + mo_context) option \<Rightarrow> mo_context option" where
  "loaded r = (case r of Some (Inr ctx) \<Rightarrow> Some ctx | _ \<Rightarrow> None)"


text \<open>
  A pair lies in the file when both of its strings, with their NUL, lie between the
  28-byte header and the end of the file. These are the bytes of its strings in the file.
\<close>

definition pair_in_file :: "addr \<Rightarrow> nat \<Rightarrow> mo_string_pair_t \<Rightarrow> bool" where
  "pair_in_file base n p \<longleftrightarrow>
     base + 28 \<le> pair_original p \<and> pair_original p + pair_original_len p + 1 \<le> base + n \<and>
     base + 28 \<le> pair_translation p \<and>
     pair_translation p + pair_translation_len p + 1 \<le> base + n"

definition original_bytes :: "byte list \<Rightarrow> addr \<Rightarrow> mo_string_pair_t \<Rightarrow> byte list" where
  "original_bytes bytes base p =
     take (pair_original_len p) (drop (pair_original p - base) bytes)"

definition translation_bytes :: "byte list \<Rightarrow> addr \<Rightarrow> mo_string_pair_t \<Rightarrow> byte list" where
  "translation_bytes bytes base p =
     take (pair_translation_len p) (drop (pair_translation p - base) bytes)"

text \<open>A query of \<open>len\<close> bytes at \<open>str\<close> is the original of a pair.\<close>

definition pair_matches :: "memory \<Rightarrow> addr \<Rightarrow> nat \<Rightarrow> mo_string_pair_t \<Rightarrow> bool" where
  "pair_matches M str len p \<longleftrightarrow>
     pair_original_len p = len \<and> bytes_at M (pair_original p) len = bytes_at M str len"

text \<open>The translation a catalog has for a query: of the first pair it is the original of.\<close>

definition catalog_lookup :: "mo_string_pair_t list \<Rightarrow> memory \<Rightarrow> addr \<Rightarrow> nat \<Rightarrow> addr" where
  "catalog_lookup ps M str len =
     (case find (pair_matches M str len) ps of None \<Rightarrow> str | Some p \<Rightarrow> pair_translation p)"

text \<open>
  Two queries of a sequence that pass the same pointer pass the same bytes: the same
  length, and the same contents at the time of each call.
\<close>

definition same_pointer_same_bytes ::
  "mo_context \<Rightarrow> (memory \<times> addr \<times> nat) \<Rightarrow> (memory \<times> addr \<times> nat) \<Rightarrow> bool" where
  "same_pointer_same_bytes ctx q1 q2 =
     (if fst (snd q1) = fst (snd q2)
      then snd (snd q1) = snd (snd q2) \<and>
           bytes_at (view ctx (fst q1)) (fst (snd q1)) (snd (snd q1)) =
           bytes_at (view ctx (fst q2)) (fst (snd q2)) (snd (snd q2))
      else True)"

definition consistent_queries :: "mo_context \<Rightarrow> (memory \<times> addr \<times> nat) list \<Rightarrow> bool" where
  "consistent_queries ctx qs = list_all (\<lambda>q1. list_all (same_pointer_same_bytes ctx q1) qs) qs"

text \<open>The key the sort and the binary search order by: the length, then the bytes.\<close>

definition pair_key :: "memory \<Rightarrow> mo_string_pair_t \<Rightarrow> nat \<times> byte list" where
  "pair_key M p = (pair_original_len p, bytes_at M (pair_original p) (pair_original_len p))"

text \<open>The hash table after the insertion of the pairs \<open>xs\<close>, each with its hash.\<close>

definition occupied :: "mo_hash_slot_t \<Rightarrow> bool" where
  "occupied s \<longleftrightarrow> slot_state s = MO_HASH_SLOT_OCCUPIED"

definition slot_matches :: "memory \<Rightarrow> addr \<Rightarrow> nat \<Rightarrow> u32 \<Rightarrow> mo_hash_slot_t \<Rightarrow> bool" where
  "slot_matches M str len hash s \<longleftrightarrow>
     slot_state s = MO_HASH_SLOT_OCCUPIED \<and> slot_hash s = hash \<and>
     unat (slot_original_len s) = len \<and> memcmp M (slot_original s) str len = 0"

definition hashed :: "memory \<Rightarrow> mo_string_pair_t \<Rightarrow> mo_string_pair_t \<times> u32" where
  "hashed M p = (p, mo_hash_string M (pair_original p) (pair_original_len p))"

definition table_inv ::
  "nat \<Rightarrow> (mo_string_pair_t \<times> u32) list \<Rightarrow> mo_hash_slot_t list \<Rightarrow> bool" where
  "table_inv k xs tbl \<longleftrightarrow>
     length tbl = 2 ^ k \<and>
     length (filter occupied tbl) = length xs \<and>
     (\<forall>j<2 ^ k. \<not> occupied (tbl ! j) \<longrightarrow> slot_state (tbl ! j) = MO_HASH_SLOT_EMPTY) \<and>
     (\<forall>j<2 ^ k. occupied (tbl ! j) \<longrightarrow>
        (\<exists>x\<in>set xs. tbl ! j = slot_of_pair (fst x) (snd x)) \<and>
        (\<exists>d<2 ^ k. j = (unat (slot_hash (tbl ! j)) + d) mod 2 ^ k \<and>
           (\<forall>e<d. occupied (tbl ! ((unat (slot_hash (tbl ! j)) + e) mod 2 ^ k))))) \<and>
     (\<forall>x\<in>set xs. \<exists>j<2 ^ k. tbl ! j = slot_of_pair (fst x) (snd x))"

text \<open>
  What a load in mode \<open>m\<close> establishes and every lookup keeps: \<open>ps\<close> are the pairs of
  the file, \<open>M0\<close> is the memory the load read the originals in.
\<close>

definition catalog_wf ::
  "search_method \<Rightarrow> memory \<Rightarrow> mo_string_pair_t list \<Rightarrow> mo_context \<Rightarrow> bool" where
  "catalog_wf m M0 ps ctx \<longleftrightarrow>
     length ps < 2 ^ 32 \<and> (\<forall>p\<in>set ps. pair_original_len p < 2 ^ 32) \<and>
     length (cache ctx) = MO_CACHE_SIZE \<and>
     (case m of
        MO_SEARCH_METHOD_LINEAR \<Rightarrow> pairs ctx = Some ps
      | MO_SEARCH_METHOD_BINARY \<Rightarrow> pairs ctx = Some (qsort_pairs M0 ps)
      | MO_SEARCH_METHOD_HASH \<Rightarrow>
          pairs ctx = Some ps \<and>
          (\<exists>tbl k. hash_table ctx = Some tbl \<and> k \<le> 31 \<and> hash_table_mask ctx = 2 ^ k - 1 \<and>
             hash_table_count ctx = word_of_nat (length ps) \<and> length ps < 2 ^ k \<and>
             table_inv k (map (hashed M0) ps) tbl))"

text \<open>
  The lookup of \<^verbatim>\<open>mo_translate_cp\<close> in the words of the specification: with a context,
  the key is the context, the byte 4 and the string; a lookup of the key that returns the
  key buffer found nothing, and the bare string is looked up instead. \<open>cp_lookup\<close> is
  the lookup of the singular (whose key fits the buffer), \<open>cp_plural_lookup\<close> the one
  of the plural (a key that does not fit is not looked up).
\<close>

definition cp_lookup ::
  "search_method \<Rightarrow> mo_context option \<Rightarrow> memory \<Rightarrow> addr \<Rightarrow> addr \<Rightarrow> addr \<Rightarrow>
   (addr \<times> mo_context option \<times> memory) option" where
  "cp_lookup m context mem key context_str str =
     (case context_key (memory_of context mem) context_str str of
        None \<Rightarrow> None
      | Some s \<Rightarrow>
          (case mo_translate_n m context (snprintf_key mem key s) key (length s) of
             None \<Rightarrow> None
           | Some (r, c) \<Rightarrow>
               if r = key \<and> context_str \<noteq> 0
               then map_option (\<lambda>(r', c'). (r', c', snprintf_key mem key s))
                      (mo_translate m c (snprintf_key mem key s) str)
               else Some (r, c, snprintf_key mem key s)))"

definition cp_plural_lookup ::
  "search_method \<Rightarrow> mo_context option \<Rightarrow> memory \<Rightarrow> addr \<Rightarrow> addr \<Rightarrow> addr \<Rightarrow>
   (addr \<times> mo_context option \<times> memory) option" where
  "cp_plural_lookup m context mem key context_str plural =
     (if context_str = 0
      then map_option (\<lambda>(r, c). (r, c, mem)) (mo_translate m context mem plural)
      else
        (case context_key (memory_of context mem) context_str plural of
           None \<Rightarrow> None
         | Some s \<Rightarrow>
             if length s < MO_MAX_STRING_LENGTH
             then
               (case mo_translate_n m context (snprintf_key mem key s) key (length s) of
                  None \<Rightarrow> None
                | Some (r, c) \<Rightarrow>
                    if r = key
                    then map_option (\<lambda>(r', c'). (r', c', snprintf_key mem key s))
                           (mo_translate m c (snprintf_key mem key s) plural)
                    else Some (r, c, snprintf_key mem key s))
             else map_option (\<lambda>(r, c). (r, c, snprintf_key mem key s))
                    (mo_translate m context (snprintf_key mem key s) plural)))"

section \<open>Example catalogs\<close>

text \<open>
  A little-endian catalog of two pairs, \<^verbatim>\<open>"a"\<close> to \<^verbatim>\<open>"x"\<close> and \<^verbatim>\<open>"ab"\<close> to \<^verbatim>\<open>"yz"\<close>:
  the header, the two descriptor tables at 28 and 44, the strings from 60 on.
\<close>

definition demo_file :: "byte list" where
  "demo_file =
     [0xDE, 0x12, 0x04, 0x95, 0x00, 0x00, 0x00, 0x00, 0x02, 0x00, 0x00, 0x00,
      0x1C, 0x00, 0x00, 0x00, 0x2C, 0x00, 0x00, 0x00, 0x00, 0x00, 0x00, 0x00,
      0x00, 0x00, 0x00, 0x00, 0x01, 0x00, 0x00, 0x00, 0x3C, 0x00, 0x00, 0x00,
      0x02, 0x00, 0x00, 0x00, 0x3E, 0x00, 0x00, 0x00, 0x01, 0x00, 0x00, 0x00,
      0x41, 0x00, 0x00, 0x00, 0x02, 0x00, 0x00, 0x00, 0x43, 0x00, 0x00, 0x00,
      0x61, 0x00, 0x61, 0x62, 0x00, 0x78, 0x00, 0x79, 0x7A, 0x00]"

text \<open>
  A catalog of one pair whose original has length 0 and offset \<open>0xFFFFFFFF\<close>: 44 bytes.
\<close>

definition wrap_file :: "byte list" where
  "wrap_file =
     [0xDE, 0x12, 0x04, 0x95, 0x00, 0x00, 0x00, 0x00, 0x01, 0x00, 0x00, 0x00,
      0x1C, 0x00, 0x00, 0x00, 0x24, 0x00, 0x00, 0x00, 0x00, 0x00, 0x00, 0x00,
      0x00, 0x00, 0x00, 0x00, 0x00, 0x00, 0x00, 0x00, 0xFF, 0xFF, 0xFF, 0xFF,
      0x00, 0x00, 0x00, 0x00, 0x00, 0x00, 0x00, 0x00]"

text \<open>
  A catalog with the original \<^verbatim>\<open>"a"\<close> twice, translated to \<^verbatim>\<open>"x"\<close> and to \<^verbatim>\<open>"y"\<close>.
\<close>

definition dup_file :: "byte list" where
  "dup_file =
     [0xDE, 0x12, 0x04, 0x95, 0x00, 0x00, 0x00, 0x00, 0x02, 0x00, 0x00, 0x00,
      0x1C, 0x00, 0x00, 0x00, 0x2C, 0x00, 0x00, 0x00, 0x00, 0x00, 0x00, 0x00,
      0x00, 0x00, 0x00, 0x00, 0x01, 0x00, 0x00, 0x00, 0x3C, 0x00, 0x00, 0x00,
      0x01, 0x00, 0x00, 0x00, 0x3E, 0x00, 0x00, 0x00, 0x01, 0x00, 0x00, 0x00,
      0x40, 0x00, 0x00, 0x00, 0x01, 0x00, 0x00, 0x00, 0x42, 0x00, 0x00, 0x00,
      0x61, 0x00, 0x61, 0x00, 0x78, 0x00, 0x79, 0x00]"


text \<open>Every allocation succeeds; the owned buffer is put at address 256.\<close>

definition demo_alloc :: mo_alloc where
  "demo_alloc =
     \<lparr>alloc_context = True, alloc_data = 256, alloc_pairs = True, alloc_table = True\<rparr>"

text \<open>A caller's memory holding \<^verbatim>\<open>"ab"\<close> at address 64 and zero elsewhere.\<close>

definition demo_mem :: memory where
  "demo_mem = store_bytes (\<lambda>a. 0) 64 [0x61, 0x62, 0x00]"

definition demo_catalog :: "search_method \<Rightarrow> mo_context option" where
  "demo_catalog m =
     loaded (mo_context_create_from_memory m demo_alloc demo_mem (Some demo_file) True)"

text \<open>A context as \<^verbatim>\<open>calloc\<close> returns it: every pointer \<^verbatim>\<open>NULL\<close>, every number 0.\<close>

definition blank_context :: mo_context where
  "blank_context =
     \<lparr>data = [], data_ptr = 0, pairs = None, hash_table = None, hash_table_mask = 0,
      hash_table_count = 0, cache = empty_cache, stats = zero_stats\<rparr>"





section \<open>The next power of two\<close>







section \<open>The float quotient\<close>












section \<open>Comparisons and the two array searches\<close>

lemma length_bytes_at [simp]: "length (bytes_at M p n) = n"
  by (simp add: bytes_at_def)

lemma memcmp_bytes_order:
  assumes "length xs = length ys"
  shows "(memcmp_bytes xs ys = 0 \<longleftrightarrow> xs = ys) \<and> (memcmp_bytes xs ys < 0 \<longleftrightarrow> xs < ys)"
  using assms by (induction xs ys rule: list_induct2) auto

lemma memcmp_eq_0: "memcmp M p q n = 0 \<longleftrightarrow> bytes_at M p n = bytes_at M q n"
  by (simp add: memcmp_def memcmp_bytes_order)

lemma memcmp_less_0: "memcmp M p q n < 0 \<longleftrightarrow> bytes_at M p n < bytes_at M q n"
  by (simp add: memcmp_def memcmp_bytes_order)

lemma pair_matches_key:
  "pair_matches M str len p \<longleftrightarrow> pair_key M p = (len, bytes_at M str len)"
  by (auto simp: pair_matches_def pair_key_def)

lemma mo_compare_pairs_le: "mo_compare_pairs M p q \<le> 0 \<longleftrightarrow> pair_key M p \<le> pair_key M q"
  using memcmp_eq_0 [of M "pair_original p" "pair_original q" "pair_original_len p"]
    memcmp_less_0 [of M "pair_original p" "pair_original q" "pair_original_len p"]
  by (auto simp: mo_compare_pairs_def pair_key_def less_eq_prod_def order_le_less)

lemma qsort_insert_insort: "qsort_insert M p qs = insort_key (pair_key M) p qs"
  by (induction qs) (simp_all add: mo_compare_pairs_le)

lemma qsort_pairs_sort: "qsort_pairs M ps = sort_key (pair_key M) ps"
  by (induction ps) (simp_all add: qsort_insert_insort sort_key_def)

lemma linear_loop_result:
  "(\<exists>j<length ps. pair_matches M str len (ps ! j) \<and> (\<forall>j'<j. \<not> pair_matches M str len (ps ! j')) \<and>
       fst (linear_loop M ps str len i c) = word_of_nat (i + j)) \<or>
   (\<forall>p\<in>set ps. \<not> pair_matches M str len p) \<and> fst (linear_loop M ps str len i c) = NOT_FOUND"
proof (induction ps arbitrary: i c)
  case Nil
  then show ?case by simp
next
  case (Cons p ps)
  show ?case
  proof (cases "pair_matches M str len p")
    case True
    then show ?thesis
      by (intro disjI1 exI [of _ 0]) (simp add: pair_matches_def memcmp_eq_0)
  next
    case False
    then have eq: "linear_loop M (p # ps) str len i c = linear_loop M ps str len (Suc i) (c + 1)"
      by (simp add: pair_matches_def memcmp_eq_0)
    from Cons.IH [of "Suc i" "c + 1"] show ?thesis
    proof
      assume "\<exists>j<length ps. pair_matches M str len (ps ! j) \<and>
        (\<forall>j'<j. \<not> pair_matches M str len (ps ! j')) \<and>
        fst (linear_loop M ps str len (Suc i) (c + 1)) = word_of_nat (Suc i + j)"
      then obtain j where j: "j < length ps" "pair_matches M str len (ps ! j)"
        "\<forall>j'<j. \<not> pair_matches M str len (ps ! j')"
        "fst (linear_loop M ps str len (Suc i) (c + 1)) = word_of_nat (Suc i + j)"
        by blast
      have "\<forall>j'<Suc j. \<not> pair_matches M str len ((p # ps) ! j')"
        using False j(3) by (auto simp: less_Suc_eq_0_disj)
      with j(1,2,4) eq show ?thesis
        by (intro disjI1 exI [of _ "Suc j"]) simp
    next
      assume "(\<forall>p\<in>set ps. \<not> pair_matches M str len p) \<and>
        fst (linear_loop M ps str len (Suc i) (c + 1)) = NOT_FOUND"
      with False eq show ?thesis
        by simp
    qed
  qed
qed

lemma sorted_key_nth:
  assumes "sorted (map f ps)" "i \<le> j" "j < length ps"
  shows "f (ps ! i) \<le> f (ps ! j)"
  using sorted_nth_mono [OF assms(1), of i j] assms(2,3) by simp

lemma binary_loop_unfold:
  assumes "left \<le> right" "mid = left + (right - left) div 2"
  shows "binary_loop M ps str len left right c =
     (if pair_original_len (ps ! mid) < len
      then binary_loop M ps str len (mid + 1) right (c + 1)
      else if pair_original_len (ps ! mid) > len
      then (if mid = 0 then (NOT_FOUND, c + 1)
            else binary_loop M ps str len left (mid - 1) (c + 1))
      else if memcmp M (pair_original (ps ! mid)) str len = 0
      then (word_of_nat mid, c + 1)
      else if memcmp M (pair_original (ps ! mid)) str len < 0
      then binary_loop M ps str len (mid + 1) right (c + 1)
      else (if mid = 0 then (NOT_FOUND, c + 1)
            else binary_loop M ps str len left (mid - 1) (c + 1)))"
  unfolding assms(2) using assms(1) by (subst binary_loop.simps) (simp only: if_True)

lemma binary_loop_result:
  assumes "sorted (map (pair_key M) ps)" and "right < length ps"
  shows "(\<exists>i. left \<le> i \<and> i \<le> right \<and> pair_matches M str len (ps ! i) \<and>
            fst (binary_loop M ps str len left right c) = word_of_nat i) \<or>
         (\<forall>i. left \<le> i \<and> i \<le> right \<longrightarrow> \<not> pair_matches M str len (ps ! i)) \<and>
            fst (binary_loop M ps str len left right c) = NOT_FOUND"
  using assms
proof (induction M ps str len left right c rule: binary_loop.induct)
  case (1 M ps str len left right c)
  define mid where "mid = left + (right - left) div 2"
  let ?K = "(len, bytes_at M str len)"
  let ?k = "pair_key M (ps ! mid)"
  note srt = "1.prems"(1) and rl = "1.prems"(2)
  note IH = "1.IH" [folded mid_def]
  show ?case
  proof (cases "left \<le> right")
    case False
    then have "fst (binary_loop M ps str len left right c) = NOT_FOUND"
      by (subst binary_loop.simps) simp
    with False show ?thesis
      by auto
  next
    case True
    then have mid: "left \<le> mid" "mid \<le> right"
      by (simp_all add: mid_def)
    note unfold = binary_loop_unfold [OF True mid_def, of M ps str len c]
    have below: "\<not> pair_matches M str len (ps ! i)" if "?k < ?K" "i \<le> mid" for i
    proof -
      have "pair_key M (ps ! i) \<le> ?k"
        using srt that(2) mid rl by (intro sorted_key_nth) simp_all
      with that(1) show ?thesis
        by (auto simp: pair_matches_key)
    qed
    have above: "\<not> pair_matches M str len (ps ! i)" if "?K < ?k" "mid \<le> i" "i \<le> right" for i
    proof -
      have "?k \<le> pair_key M (ps ! i)"
        using srt that(2,3) rl by (intro sorted_key_nth) simp_all
      with that(1) show ?thesis
        by (auto simp: pair_matches_key)
    qed
    consider (less) "?k < ?K" | (equal) "?k = ?K" | (greater) "?K < ?k"
      by (metis less_linear)
    then show ?thesis
    proof cases
      case equal
      then have "pair_matches M str len (ps ! mid)"
        by (simp add: pair_matches_key)
      then have "pair_original_len (ps ! mid) = len"
        "memcmp M (pair_original (ps ! mid)) str len = 0"
        by (simp_all add: pair_matches_def memcmp_eq_0)
      then have "fst (binary_loop M ps str len left right c) = word_of_nat mid"
        by (simp add: unfold)
      with mid equal show ?thesis
        by (intro disjI1 exI [of _ mid]) (simp add: pair_matches_key)
    next
      case less
      then have cond: "pair_original_len (ps ! mid) < len \<or>
          pair_original_len (ps ! mid) = len \<and>
            memcmp M (pair_original (ps ! mid)) str len \<noteq> 0 \<and>
            memcmp M (pair_original (ps ! mid)) str len < 0"
        by (auto simp: pair_key_def memcmp_eq_0 memcmp_less_0)
      then have eq: "binary_loop M ps str len left right c =
          binary_loop M ps str len (mid + 1) right (c + 1)"
        by (auto simp: unfold)
      have ih: "(\<exists>i. mid + 1 \<le> i \<and> i \<le> right \<and> pair_matches M str len (ps ! i) \<and>
            fst (binary_loop M ps str len (mid + 1) right (c + 1)) = word_of_nat i) \<or>
         (\<forall>i. mid + 1 \<le> i \<and> i \<le> right \<longrightarrow> \<not> pair_matches M str len (ps ! i)) \<and>
            fst (binary_loop M ps str len (mid + 1) right (c + 1)) = NOT_FOUND"
        using cond True IH(1) IH(3) srt rl by auto
      then show ?thesis
      proof
        assume "\<exists>i. mid + 1 \<le> i \<and> i \<le> right \<and> pair_matches M str len (ps ! i) \<and>
            fst (binary_loop M ps str len (mid + 1) right (c + 1)) = word_of_nat i"
        then obtain i where "mid + 1 \<le> i" "i \<le> right" "pair_matches M str len (ps ! i)"
          "fst (binary_loop M ps str len (mid + 1) right (c + 1)) = word_of_nat i"
          by blast
        with mid eq show ?thesis
          by (intro disjI1 exI [of _ i]) simp
      next
        assume none: "(\<forall>i. mid + 1 \<le> i \<and> i \<le> right \<longrightarrow> \<not> pair_matches M str len (ps ! i)) \<and>
            fst (binary_loop M ps str len (mid + 1) right (c + 1)) = NOT_FOUND"
        have "\<not> pair_matches M str len (ps ! i)" if "left \<le> i" "i \<le> right" for i
          using below [OF less, of i] none that by (cases "i \<le> mid") auto
        with none eq show ?thesis
          by simp
      qed
    next
      case greater
      then have cond: "\<not> pair_original_len (ps ! mid) < len \<and>
          (len < pair_original_len (ps ! mid) \<or>
           memcmp M (pair_original (ps ! mid)) str len \<noteq> 0 \<and>
           \<not> memcmp M (pair_original (ps ! mid)) str len < 0)"
        by (auto simp: pair_key_def memcmp_eq_0 memcmp_less_0)
      show ?thesis
      proof (cases "mid = 0")
        case True
        then have "fst (binary_loop M ps str len left right c) = NOT_FOUND"
          using cond by (auto simp: unfold)
        moreover have "\<not> pair_matches M str len (ps ! i)" if "left \<le> i" "i \<le> right" for i
          using above [OF greater, of i] that True by simp
        ultimately show ?thesis
          by simp
      next
        case False
        then have eq: "binary_loop M ps str len left right c =
            binary_loop M ps str len left (mid - 1) (c + 1)"
          using cond by (auto simp: unfold)
        have "mid - 1 < length ps"
          using mid rl by simp
        then have ih: "(\<exists>i. left \<le> i \<and> i \<le> mid - 1 \<and> pair_matches M str len (ps ! i) \<and>
              fst (binary_loop M ps str len left (mid - 1) (c + 1)) = word_of_nat i) \<or>
           (\<forall>i. left \<le> i \<and> i \<le> mid - 1 \<longrightarrow> \<not> pair_matches M str len (ps ! i)) \<and>
              fst (binary_loop M ps str len left (mid - 1) (c + 1)) = NOT_FOUND"
          using cond True False IH(2) IH(4) srt by auto
        then show ?thesis
        proof
          assume "\<exists>i. left \<le> i \<and> i \<le> mid - 1 \<and> pair_matches M str len (ps ! i) \<and>
              fst (binary_loop M ps str len left (mid - 1) (c + 1)) = word_of_nat i"
          then obtain i where "left \<le> i" "i \<le> mid - 1" "pair_matches M str len (ps ! i)"
            "fst (binary_loop M ps str len left (mid - 1) (c + 1)) = word_of_nat i"
            by blast
          with mid eq show ?thesis
            by (intro disjI1 exI [of _ i]) simp
        next
          assume none: "(\<forall>i. left \<le> i \<and> i \<le> mid - 1 \<longrightarrow> \<not> pair_matches M str len (ps ! i)) \<and>
              fst (binary_loop M ps str len left (mid - 1) (c + 1)) = NOT_FOUND"
          have "\<not> pair_matches M str len (ps ! i)" if "left \<le> i" "i \<le> right" for i
            using above [OF greater, of i] none that by (cases "mid \<le> i") auto
          with none eq show ?thesis
            by simp
        qed
      qed
    qed
  qed
qed


section \<open>The hash table\<close>

lemma and_low_mask_unat:
  fixes w :: u32
  assumes "k \<le> 32"
  shows "unat (w AND (2 ^ k - 1)) = unat w mod 2 ^ k"
proof -
  have "w AND (2 ^ k - 1) = take_bit k w"
    by (simp add: take_bit_eq_mask mask_eq_decr_exp)
  then show ?thesis
    by (simp add: unsigned_take_bit_eq take_bit_nat_def)
qed

lemma step_index:
  fixes idx :: u32
  assumes "k \<le> 32"
  shows "unat ((idx + 1) AND (2 ^ k - 1)) = (unat idx + 1) mod 2 ^ k"
proof -
  have "(2::nat) ^ k dvd 2 ^ 32"
    using assms by (rule le_imp_power_dvd)
  then have "(unat idx + 1) mod 2 ^ 32 mod 2 ^ k = (unat idx + 1) mod 2 ^ k"
    by (rule mod_mod_cancel)
  moreover have "unat ((idx + 1) AND (2 ^ k - 1)) = (unat idx + 1) mod 2 ^ 32 mod 2 ^ k"
    by (simp add: and_low_mask_unat [OF assms] unat_word_ariths)
  ultimately show ?thesis
    by simp
qed




lemma occupied_slot_of_pair [simp]: "occupied (slot_of_pair p h)"
  by (simp add: occupied_def slot_of_pair_def)

lemma slot_hash_slot_of_pair [simp]: "slot_hash (slot_of_pair p h) = h"
  by (simp add: slot_of_pair_def)







lemma hash_find_probe_finds:
  assumes N: "length tbl = 2 ^ k" "k \<le> 32"
    and "unat start_index < 2 ^ k"
    and "dj < 2 ^ k"
    and "slot_matches M str len hash (tbl ! ((unat start_index + dj) mod 2 ^ k))"
    and "d \<le> dj"
    and "unat index = (unat start_index + d) mod 2 ^ k"
    and "\<forall>e. d \<le> e \<and> e < dj \<longrightarrow> occupied (tbl ! ((unat start_index + e) mod 2 ^ k))"
  shows "\<exists>r c. hash_find_probe M tbl (2 ^ k - 1) cnt str len hash start_index index coll =
             Some (r, c) \<and> unat r < 2 ^ k \<and> slot_matches M str len hash (tbl ! unat r)"
  using assms(6,7,8)
proof (induction "dj - d" arbitrary: d index coll)
  case 0
  then have "unat index = (unat start_index + dj) mod 2 ^ k"
    by simp
  with assms(5) N show ?case
    by (subst hash_find_probe.simps) (auto simp: slot_matches_def)
next
  case (Suc n)
  have lt: "unat index < length tbl"
    using Suc.prems(2) N by simp
  let ?s = "tbl ! unat index"
  let ?idx' = "(index + 1) AND (2 ^ k - 1)"
  let ?coll' = "if slot_state ?s = MO_HASH_SLOT_OCCUPIED \<and> unat cnt < length tbl
                then coll + 1 else coll"
  show ?case
  proof (cases "slot_matches M str len hash ?s")
    case True
    with lt N show ?thesis
      by (subst hash_find_probe.simps) (auto simp: slot_matches_def)
  next
    case False
    from Suc.hyps(2) have d: "d < dj"
      by simp
    with Suc.prems(3) have "occupied (tbl ! ((unat start_index + d) mod 2 ^ k))"
      by simp
    then have occ: "slot_state ?s = MO_HASH_SLOT_OCCUPIED"
      by (simp add: Suc.prems(2) occupied_def)
    have u: "unat ?idx' = (unat index + 1) mod 2 ^ k"
      by (rule step_index [OF N(2)])
    have pos: "unat ?idx' = (unat start_index + Suc d) mod 2 ^ k"
      unfolding u Suc.prems(2) by (simp add: mod_Suc_eq)
    have "(unat start_index + Suc d) mod 2 ^ k \<noteq> unat start_index"
    proof (cases "unat start_index + Suc d < 2 ^ k")
      case True
      then show ?thesis by simp
    next
      case False
      then have "(unat start_index + Suc d) mod 2 ^ k =
          (unat start_index + Suc d - 2 ^ k) mod 2 ^ k"
        by (simp add: le_mod_geq)
      also have "\<dots> = unat start_index + Suc d - 2 ^ k"
        using assms(3,4) d by simp
      finally have "(unat start_index + Suc d) mod 2 ^ k = unat start_index + Suc d - 2 ^ k" .
      with assms(4) d False show ?thesis
        by linarith
    qed
    with pos have "unat ?idx' \<noteq> unat start_index"
      by simp
    then have ne: "?idx' \<noteq> start_index"
      by auto
    have "n = dj - Suc d" "Suc d \<le> dj"
      using Suc.hyps(2) by simp_all
    moreover have "\<forall>e. Suc d \<le> e \<and> e < dj \<longrightarrow>
        occupied (tbl ! ((unat start_index + e) mod 2 ^ k))"
      using Suc.prems(3) by simp
    ultimately obtain r c where rc:
      "hash_find_probe M tbl (2 ^ k - 1) cnt str len hash start_index ?idx' ?coll' = Some (r, c)"
      "unat r < 2 ^ k" "slot_matches M str len hash (tbl ! unat r)"
      using Suc.hyps(1) [of "Suc d" ?idx' ?coll'] pos by blast
    have "hash_find_probe M tbl (2 ^ k - 1) cnt str len hash start_index index coll = Some (r, c)"
      using False occ ne lt rc(1) by (subst hash_find_probe.simps) (auto simp: slot_matches_def)
    with rc(2,3) show ?thesis
      by blast
  qed
qed









lemma view_update [simp]:
  "view (ctx\<lparr>pairs := ps\<rparr>) mem = view ctx mem"
  "view (ctx\<lparr>hash_table := t\<rparr>) mem = view ctx mem"
  "view (ctx\<lparr>hash_table_mask := k\<rparr>) mem = view ctx mem"
  "view (ctx\<lparr>hash_table_count := c\<rparr>) mem = view ctx mem"
  "view (ctx\<lparr>cache := ca\<rparr>) mem = view ctx mem"
  "view (ctx\<lparr>stats := s\<rparr>) mem = view ctx mem"
  by (simp_all add: view_def)





lemma index_word:
  assumes "j < 4294967295"
  shows "unat (word_of_nat j :: u32) = j" "(word_of_nat j :: u32) \<noteq> NOT_FOUND"
proof -
  show u: "unat (word_of_nat j :: u32) = j"
    using assms by (simp add: unat_of_nat)
  have "unat NOT_FOUND = 4294967295"
    by (simp add: NOT_FOUND_def)
  with u assms show "(word_of_nat j :: u32) \<noteq> NOT_FOUND"
    by auto
qed

lemma slot_matches_slot_of_pair:
  assumes "pair_original_len p < 2 ^ 32"
  shows "slot_matches M str len hash (slot_of_pair p h) \<longleftrightarrow> h = hash \<and> pair_matches M str len p"
proof -
  have "unat (word_of_nat (pair_original_len p) :: u32) = pair_original_len p"
    using assms by (simp add: unat_of_nat)
  then show ?thesis
    by (auto simp: slot_matches_def slot_of_pair_def pair_matches_def memcmp_eq_0)
qed

lemma table_inv_slot:
  assumes "table_inv k (map (hashed M0) ps) tbl" "j < 2 ^ k" "occupied (tbl ! j)"
  shows "\<exists>p\<in>set ps. tbl ! j = slot_of_pair p (snd (hashed M0 p))"
  using assms unfolding table_inv_def by (fastforce simp: hashed_def)



lemma mo_find_string_frame:
  assumes "mo_find_string m M ctx str len hash = Some (index, ctx')"
  shows "\<exists>s. ctx' = ctx\<lparr>stats := s\<rparr> \<and> total_lookups s = total_lookups (stats ctx) \<and>
             cache_hits s = cache_hits (stats ctx) \<and> cache_misses s = cache_misses (stats ctx)"
  using assms
  by (cases m) (auto simp: mo_find_string_def split: option.splits prod.splits)

lemma mo_find_string_pairs:
  assumes "mo_find_string m M ctx str len hash = Some (index, ctx2)"
  shows "pairs ctx2 = pairs ctx" "hash_table ctx2 = hash_table ctx" "cache ctx2 = cache ctx"
  using mo_find_string_frame [OF assms] by auto

lemma mo_find_string_found:
  assumes wf: "catalog_wf m M0 ps ctx"
    and agree: "\<forall>p\<in>set ps. pair_key M p = pair_key M0 p"
    and dist: "distinct (map (pair_key M) ps)"
    and p: "p \<in> set ps" "pair_matches M str len p"
    and hash: "hash = mo_hash_string M str len" and str: "str \<noteq> 0"
  shows "\<exists>index ctx2. mo_find_string m M ctx str len hash = Some (index, ctx2) \<and>
           index \<noteq> NOT_FOUND \<and> translation_at m ctx2 index = pair_translation p"
proof -
  have unique: "q = p" if "q \<in> set ps" "pair_matches M str len q" for q
  proof -
    from that(2) p(2) have "pair_key M q = pair_key M p"
      by (simp add: pair_matches_key)
    moreover from dist have "inj_on (pair_key M) (set ps)"
      by (simp add: distinct_map)
    ultimately show ?thesis
      using that(1) p(1) by (auto dest: inj_onD)
  qed
  from wf have len: "length ps < 2 ^ 32" and lens: "\<forall>p\<in>set ps. pair_original_len p < 2 ^ 32"
    by (simp_all add: catalog_wf_def)
  have found: ?thesis
    if "mo_find_string m M ctx str len hash = Some (index, ctx2)" "index \<noteq> NOT_FOUND"
      "translation_at m ctx index = pair_translation p" for index ctx2
    using that mo_find_string_pairs [OF that(1)] by (auto simp: translation_at_def)
  show ?thesis
  proof (cases m)
    case MO_SEARCH_METHOD_LINEAR
    with wf have ps: "pairs ctx = Some ps"
      by (simp add: catalog_wf_def)
    from p(1) have ne: "ps \<noteq> []"
      by auto
    let ?c = "comparisons (stats ctx)"
    from linear_loop_result [of ps M str len 0 ?c] p obtain j where
      j: "j < length ps" "pair_matches M str len (ps ! j)"
        "fst (linear_loop M ps str len 0 ?c) = word_of_nat j"
      by auto
    from j(1) len have j32: "j < 4294967295"
      by simp
    from unique [OF nth_mem [OF j(1)] j(2)] have "ps ! j = p" .
    with ps index_word [OF j32] MO_SEARCH_METHOD_LINEAR
    have "translation_at m ctx (word_of_nat j) = pair_translation p"
      by (simp add: translation_at_def)
    moreover have "\<exists>ctx2. mo_find_string m M ctx str len hash = Some (word_of_nat j, ctx2)"
      using ps ne j(3) MO_SEARCH_METHOD_LINEAR
      by (simp add: mo_find_string_def mo_find_string_linear_def)
    ultimately show ?thesis
      using found index_word(2) [OF j32] by blast
  next
    case MO_SEARCH_METHOD_BINARY
    define ps' where "ps' = qsort_pairs M0 ps"
    with wf MO_SEARCH_METHOD_BINARY have ps: "pairs ctx = Some ps'"
      by (simp add: catalog_wf_def)
    have sort: "ps' = sort_key (pair_key M0) ps"
      by (simp add: ps'_def qsort_pairs_sort)
    then have set: "set ps' = set ps" and l: "length ps' = length ps"
      by simp_all
    from p(1) set have ne: "ps' \<noteq> []"
      by auto
    then have right: "length ps' - 1 < length ps'"
      by (cases ps') auto
    have keys: "map (pair_key M) ps' = map (pair_key M0) ps'"
      using agree set by (intro map_cong) auto
    have "sorted (map (pair_key M0) ps')"
      unfolding sort by (rule sorted_sort_key)
    then have "sorted (map (pair_key M) ps')"
      by (simp only: keys)
    let ?c = "comparisons (stats ctx)"
    from p(1) set have "p \<in> set ps'"
      by simp
    then obtain i0 where i0: "i0 < length ps'" "ps' ! i0 = p"
      unfolding in_set_conv_nth by blast
    from binary_loop_result [OF \<open>sorted (map (pair_key M) ps')\<close> right, of 0 str len ?c]
    obtain i where i: "i \<le> length ps' - 1" "pair_matches M str len (ps' ! i)"
      "fst (binary_loop M ps' str len 0 (length ps' - 1) ?c) = word_of_nat i"
    proof
      assume "(\<forall>i. 0 \<le> i \<and> i \<le> length ps' - 1 \<longrightarrow> \<not> pair_matches M str len (ps' ! i)) \<and>
        fst (binary_loop M ps' str len 0 (length ps' - 1) ?c) = NOT_FOUND"
      with i0 p(2) have False
        by (auto simp: less_eq_Suc_le dest!: spec [of _ i0])
      then show ?thesis ..
    qed blast
    from i(1) right have il: "i < length ps'"
      by simp
    with l len have i32: "i < 4294967295"
      by simp
    from il set have "ps' ! i \<in> set ps"
      using nth_mem [of i ps'] by simp
    from unique [OF this i(2)] have "ps' ! i = p" .
    with ps index_word [OF i32] MO_SEARCH_METHOD_BINARY
    have "translation_at m ctx (word_of_nat i) = pair_translation p"
      by (simp add: translation_at_def)
    moreover have "\<exists>ctx2. mo_find_string m M ctx str len hash = Some (word_of_nat i, ctx2)"
      using ps ne i(3) MO_SEARCH_METHOD_BINARY
      by (simp add: mo_find_string_def mo_find_string_binary_def)
    ultimately show ?thesis
      using found index_word(2) [OF i32] by blast
  next
    case MO_SEARCH_METHOD_HASH
    with wf obtain tbl k where
      t: "hash_table ctx = Some tbl" "k \<le> 31" "hash_table_mask ctx = 2 ^ k - 1"
        "table_inv k (map (hashed M0) ps) tbl"
      by (auto simp: catalog_wf_def)
    from t(4) have tl: "length tbl = 2 ^ k"
      by (simp add: table_inv_def)
    then have ne: "tbl \<noteq> []"
      by auto
    have k32: "k \<le> 32"
      using t(2) by simp
    let ?N = "(2::nat) ^ k"
    let ?start = "hash AND (2 ^ k - 1)"
    have start: "unat ?start = unat hash mod ?N"
      by (rule and_low_mask_unat [OF k32])
    then have start_lt: "unat ?start < ?N"
      by simp
    have home: "(unat ?start + e) mod ?N = (unat hash + e) mod ?N" for e
      unfolding start by (simp add: mod_add_left_eq)
    have hp: "snd (hashed M0 p) = hash"
    proof -
      from agree p(1) have "bytes_at M0 (pair_original p) (pair_original_len p) =
          bytes_at M (pair_original p) (pair_original_len p)"
        by (auto simp: pair_key_def)
      with p(2) show ?thesis
        by (simp add: hashed_def hash mo_hash_string_def pair_matches_def)
    qed
    from t(4) p(1) obtain j where j: "j < ?N" "tbl ! j = slot_of_pair p hash"
      unfolding table_inv_def using hp by (fastforce simp: hashed_def)
    then have occ: "occupied (tbl ! j)" and sh: "slot_hash (tbl ! j) = hash"
      by simp_all
    with t(4) j(1) obtain d where d: "d < ?N" "j = (unat hash + d) mod ?N"
      "\<forall>e<d. occupied (tbl ! ((unat hash + e) mod ?N))"
      unfolding table_inv_def by (metis sh)
    have "slot_matches M str len hash (tbl ! ((unat ?start + d) mod ?N))"
      unfolding home d(2) [symmetric] j(2) using lens p by (simp add: slot_matches_slot_of_pair)
    moreover have "unat ?start = (unat ?start + 0) mod ?N"
      using start_lt by simp
    moreover have "\<forall>e. 0 \<le> e \<and> e < d \<longrightarrow> occupied (tbl ! ((unat ?start + e) mod ?N))"
      using d(3) home by simp
    ultimately obtain r c where rc:
      "hash_find_probe M tbl (2 ^ k - 1) (hash_table_count ctx) str len hash ?start ?start
         (hash_collisions (stats ctx)) = Some (r, c)"
      "unat r < ?N" "slot_matches M str len hash (tbl ! unat r)"
      using hash_find_probe_finds [OF tl k32 start_lt d(1), of M str len hash 0 ?start
          "hash_table_count ctx" "hash_collisions (stats ctx)"]
      by blast
    from rc(3) have "occupied (tbl ! unat r)"
      by (simp add: slot_matches_def occupied_def)
    from table_inv_slot [OF t(4) rc(2) this] obtain p' where
      p': "p' \<in> set ps" "tbl ! unat r = slot_of_pair p' (snd (hashed M0 p'))"
      by blast
    with rc(3) lens have "pair_matches M str len p'"
      by (simp add: slot_matches_slot_of_pair)
    from unique [OF p'(1) this] p'(2) have "slot_translation (tbl ! unat r) = pair_translation p"
      by (simp add: slot_of_pair_def)
    with t(1) MO_SEARCH_METHOD_HASH have "translation_at m ctx r = pair_translation p"
      by (simp add: translation_at_def)
    moreover have "r \<noteq> NOT_FOUND"
    proof
      assume "r = NOT_FOUND"
      then have "unat r = 4294967295"
        by (simp add: NOT_FOUND_def)
      moreover have "?N \<le> 2 ^ 31"
        using t(2) by (intro power_increasing) simp_all
      ultimately show False
        using rc(2) by simp
    qed
    moreover have "\<exists>ctx2. mo_find_string m M ctx str len hash = Some (r, ctx2)"
      using t(1,3) ne str rc(1) MO_SEARCH_METHOD_HASH
      by (simp add: mo_find_string_def mo_find_string_hash_def)
    ultimately show ?thesis
      using found by blast
  qed
qed


section \<open>What a lookup keeps\<close>

lemma catalog_wf_stats [simp]: "catalog_wf m M0 ps (ctx\<lparr>stats := s\<rparr>) = catalog_wf m M0 ps ctx"
  by (cases m) (simp_all add: catalog_wf_def)



lemma view_stats [simp]: "view (ctx\<lparr>stats := s\<rparr>) mem = view ctx mem"
  by (simp add: view_def)









section \<open>The example catalogs, loaded\<close>









lemma wrap_file_header:
  "load32 wrap_file 0 = MO_MAGIC" "load32 wrap_file 8 = 1" "load32 wrap_file 12 = 28"
  "load32 wrap_file 16 = 36" "length wrap_file = 44"
  by (simp_all add: wrap_file_def load32_def MO_MAGIC_def)

lemma wrap_file_swap_header: "swap_header wrap_file False = wrap_file"
  by (simp add: wrap_file_def load32_def mo_swap_uint32_def Let_def swap_header_def store32_def)

lemma wrap_file_init_pairs:
  "init_pairs wrap_file 256 False 28 36 [0] =
     Some [\<lparr>pair_original = 256 + 4294967295, pair_translation = 256,
            pair_original_len = 0, pair_translation_len = 0\<rparr>]"
  by (simp add: wrap_file_def load32_def mo_swap_uint32_def Let_def)










section \<open>Claims\<close>

text \<open>
  C10. When the context is \<^verbatim>\<open>NULL\<close>, or its pair array is \<^verbatim>\<open>NULL\<close>, or the original is
  \<^verbatim>\<open>NULL\<close>, \<^verbatim>\<open>mo_translate_n\<close> returns the original argument and the context is what it
  was: no cache slot is written and no counter moves, \<^verbatim>\<open>total_lookups\<close> included.
\<close>

theorem mo_translate_n_null_arguments:
  "context = None \<or> (\<exists>ctx. context = Some ctx \<and> pairs ctx = None) \<or> original = 0 \<Longrightarrow>
   mo_translate_n m context mem original original_len = Some (original, context)"
  by (auto simp: mo_translate_n_def split: option.splits)

theorem mo_translate_n_null_arguments_witness:
  "mo_translate_n MO_SEARCH_METHOD_LINEAR None demo_mem 64 2 = Some (64, None) \<and>
   mo_translate_n MO_SEARCH_METHOD_HASH (Some blank_context) demo_mem 64 2 =
     Some (64, Some blank_context) \<and>
   mo_translate_n MO_SEARCH_METHOD_BINARY (demo_catalog MO_SEARCH_METHOD_LINEAR) demo_mem 0 2 =
     Some (0, demo_catalog MO_SEARCH_METHOD_LINEAR)"
proof -
  have "pairs blank_context = None"
    by (simp add: blank_context_def)
  then show ?thesis
    using mo_translate_n_null_arguments [of None 64 MO_SEARCH_METHOD_LINEAR demo_mem 2]
      mo_translate_n_null_arguments
        [of "Some blank_context" 64 MO_SEARCH_METHOD_HASH demo_mem 2]
      mo_translate_n_null_arguments
        [of "demo_catalog MO_SEARCH_METHOD_LINEAR" 0 MO_SEARCH_METHOD_BINARY demo_mem 2]
    by simp
qed



text \<open>
  C4 fails on the code. The 44-byte catalog \<open>wrap_file\<close> loads successfully although the
  descriptor of its original, offset \<open>0xFFFFFFFF\<close> and length 0, ends far beyond the file:
  the 32-bit sum \<open>0xFFFFFFFF + 0 + 1\<close> of the check wraps to 0. The resolved original
  pointer lies \<open>4294967295\<close> bytes after the start of the 44-byte buffer.
\<close>

theorem create_accepts_wrapping_descriptor:
  "map_option (map_sum id pairs)
     (mo_context_create_from_memory MO_SEARCH_METHOD_LINEAR demo_alloc demo_mem
        (Some wrap_file) True) =
   Some (Inr (Some [\<lparr>pair_original = 256 + 4294967295, pair_translation = 256,
                     pair_original_len = 0, pair_translation_len = 0\<rparr>])) \<and>
   \<not> 4294967295 + 0 + 1 \<le> length wrap_file"
  using wrap_file_init_pairs
  by (simp add: mo_context_create_from_memory_def demo_alloc_def wrap_file_header
        wrap_file_swap_header MO_MAGIC_def MO_MAGIC_REV_def)













end
